theory Spec2Isabelle
  imports Main "HOL-Library.Word" "HOL-Library.Multiset"
begin

unbundle bit_operations_syntax

section \<open>JavaScript strings\<close>

text \<open>
  A JavaScript string is a sequence of UTF-16 code units; \<open>length\<close>, \<open>charCodeAt\<close>,
  \<open>substring\<close> and the regular expressions of the sources (none has the \<open>u\<close> flag) all
  work on code units.  \<open>js\<close> embeds an ASCII literal.
\<close>

type_synonym jschar = "16 word"
type_synonym jsstring = "jschar list"

definition js :: "string \<Rightarrow> jsstring" where
  "js s = map (\<lambda>c. of_nat (of_char c)) s"

section \<open>Content addressor: \<open>sanitizeFilename\<close>\<close>

text \<open>
  The character class \<open>[<>:"/\\|?*]\<close> of the first \<open>replace\<close>:
  \<open><\<close> 3C, \<open>>\<close> 3E, \<open>:\<close> 3A, \<open>"\<close> 22, \<open>/\<close> 2F, backslash 5C, \<open>|\<close> 7C, \<open>?\<close> 3F, \<open>*\<close> 2A.
\<close>

definition illegal_chars :: "jschar list" where
  "illegal_chars = [0x3C, 0x3E, 0x3A, 0x22, 0x2F, 0x5C, 0x7C, 0x3F, 0x2A]"

definition is_illegal :: "jschar \<Rightarrow> bool" where
  "is_illegal c \<longleftrightarrow> c \<in> set illegal_chars"

text \<open>
  The class \<open>\s\<close> of ECMAScript: the WhiteSpace and LineTerminator code points
  (TAB, LF, VT, FF, CR, SP, NBSP, U+1680, U+2000..U+200A, U+2028, U+2029, U+202F, U+205F,
  U+3000, U+FEFF).  \<open>String.prototype.trim\<close> strips exactly the same code points.
\<close>

definition is_space :: "jschar \<Rightarrow> bool" where
  "is_space c \<longleftrightarrow>
     c \<in> set [0x09, 0x0A, 0x0B, 0x0C, 0x0D, 0x20, 0xA0, 0x1680, 0x2028, 0x2029, 0x202F,
              0x205F, 0x3000, 0xFEFF]
     \<or> (0x2000 \<le> c \<and> c \<le> 0x200A)"

text \<open>\<open>s.replace(/[<>:"/\\|?*]/g, '')\<close>: every match is deleted.\<close>

definition remove_illegal :: "jsstring \<Rightarrow> jsstring" where
  "remove_illegal s = filter (\<lambda>c. \<not> is_illegal c) s"

text \<open>\<open>s.replace(/\s+/g, '_')\<close>: every maximal run of white space becomes one underscore (5F).\<close>

function replace_space_runs :: "jsstring \<Rightarrow> jsstring" where
  "replace_space_runs [] = []"
| "replace_space_runs (c # cs) =
     (if is_space c then 0x5F # replace_space_runs (dropWhile is_space cs)
      else c # replace_space_runs cs)"
  by pat_completeness auto
termination
  by (relation "measure length") (auto simp: length_dropWhile_le less_Suc_eq_le)

text \<open>\<open>s.trim()\<close>.\<close>

definition trim :: "jsstring \<Rightarrow> jsstring" where
  "trim s = rev (dropWhile is_space (rev (dropWhile is_space s)))"

text \<open>\<open>s.substring(0, n)\<close> for a non-negative \<open>n\<close>.\<close>

definition substring0 :: "nat \<Rightarrow> jsstring \<Rightarrow> jsstring" where
  "substring0 n s = take n s"

text \<open>
  The scraper's version:
  \<^verbatim>\<open>
  function sanitizeFilename(title) {
    let safe = title.replace(/[<>:"/\\|?*]/g, '');
    safe = safe.replace(/\s+/g, '_').trim();
    return safe.substring(0, 200);
  }
  \<close>
\<close>

definition sanitizeFilename :: "jsstring \<Rightarrow> jsstring" where
  "sanitizeFilename title =
     (let safe = remove_illegal title;
          safe = trim (replace_space_runs safe)
      in substring0 200 safe)"

text \<open>
  The browser consumer's version:
  \<^verbatim>\<open>
  function sanitizeFilename(title) {
      return title
          .replace(/[<>:"/\\|?*]/g, '')
          .replace(/\s+/g, '_')
          .trim()
          .substring(0, 200);
  }
  \<close>
\<close>

definition sanitizeFilename_web :: "jsstring \<Rightarrow> jsstring" where
  "sanitizeFilename_web title =
     substring0 200 (trim (replace_space_runs (remove_illegal title)))"

section \<open>The browser consumer's \<open>hashString\<close>\<close>

text \<open>
  \<open>hashString\<close> (the same text in both front-end scripts) carries its own MD5.  All its
  arithmetic goes through JavaScript's bitwise operators, which work on 32-bit integers;
  the model uses \<open>32 word\<close>, where \<open><<\<close> is \<open>push_bit\<close> and \<open>>>>\<close> is \<open>drop_bit\<close>.
\<close>

type_synonym int32 = "32 word"

text \<open>\<^verbatim>\<open>return (x << n) | (x >>> (32 - n));\<close>\<close>

definition rotateLeft :: "int32 \<Rightarrow> nat \<Rightarrow> int32" where
  "rotateLeft x n = push_bit n x OR drop_bit (32 - n) x"

text \<open>
  \<open>addUnsigned\<close>: the sum of the low 30 bits is below \<open>2^31\<close>, so the one \<open>+\<close> of the
  function never wraps.
\<close>

definition addUnsigned :: "int32 \<Rightarrow> int32 \<Rightarrow> int32" where
  "addUnsigned x y =
     (let x8 = x AND 0x80000000;
          y8 = y AND 0x80000000;
          x4 = x AND 0x40000000;
          y4 = y AND 0x40000000;
          result = (x AND 0x3FFFFFFF) + (y AND 0x3FFFFFFF)
      in if x4 AND y4 \<noteq> 0 then result XOR 0x80000000 XOR x8 XOR y8
         else if x4 OR y4 \<noteq> 0 then
           (if result AND 0x40000000 \<noteq> 0 then result XOR 0xC0000000 XOR x8 XOR y8
            else result XOR 0x40000000 XOR x8 XOR y8)
         else result XOR x8 XOR y8)"

definition F :: "int32 \<Rightarrow> int32 \<Rightarrow> int32 \<Rightarrow> int32" where
  "F x y z = (x AND y) OR (NOT x AND z)"

definition G :: "int32 \<Rightarrow> int32 \<Rightarrow> int32 \<Rightarrow> int32" where
  "G x y z = (x AND z) OR (y AND NOT z)"

definition H :: "int32 \<Rightarrow> int32 \<Rightarrow> int32 \<Rightarrow> int32" where
  "H x y z = x XOR y XOR z"

definition I :: "int32 \<Rightarrow> int32 \<Rightarrow> int32 \<Rightarrow> int32" where
  "I x y z = y XOR (x OR NOT z)"

definition FF :: "int32 \<Rightarrow> int32 \<Rightarrow> int32 \<Rightarrow> int32 \<Rightarrow> int32 \<Rightarrow> nat \<Rightarrow> int32 \<Rightarrow> int32" where
  "FF a b c d x s ac =
     (let a = addUnsigned a (addUnsigned (addUnsigned (F b c d) x) ac)
      in addUnsigned (rotateLeft a s) b)"

definition GG :: "int32 \<Rightarrow> int32 \<Rightarrow> int32 \<Rightarrow> int32 \<Rightarrow> int32 \<Rightarrow> nat \<Rightarrow> int32 \<Rightarrow> int32" where
  "GG a b c d x s ac =
     (let a = addUnsigned a (addUnsigned (addUnsigned (G b c d) x) ac)
      in addUnsigned (rotateLeft a s) b)"

definition HH :: "int32 \<Rightarrow> int32 \<Rightarrow> int32 \<Rightarrow> int32 \<Rightarrow> int32 \<Rightarrow> nat \<Rightarrow> int32 \<Rightarrow> int32" where
  "HH a b c d x s ac =
     (let a = addUnsigned a (addUnsigned (addUnsigned (H b c d) x) ac)
      in addUnsigned (rotateLeft a s) b)"

definition II :: "int32 \<Rightarrow> int32 \<Rightarrow> int32 \<Rightarrow> int32 \<Rightarrow> int32 \<Rightarrow> nat \<Rightarrow> int32 \<Rightarrow> int32" where
  "II a b c d x s ac =
     (let a = addUnsigned a (addUnsigned (addUnsigned (I b c d) x) ac)
      in addUnsigned (rotateLeft a s) b)"

text \<open>
  \<open>convertToWordArray\<close>.  The array starts as \<open>new Array(lWordCount - 1)\<close>, all holes; a
  hole reads as \<open>undefined\<close>, which every bitwise operator of the function and of
  \<open>addUnsigned\<close> takes as 0, and the last assignment extends the array to \<open>lWordCount\<close>
  elements.  The model is a list of \<open>lWordCount\<close> zeros.  \<open>charCodeAt\<close> returns the
  UTF-16 code unit (up to \<open>0xFFFF\<close>), and the shift keeps the low 32 bits.
\<close>

definition lWordCount :: "nat \<Rightarrow> nat" where
  "lWordCount len = (((len + 8) - ((len + 8) mod 64)) div 64 + 1) * 16"

text \<open>The \<open>while (lByteCount < str.length)\<close> loop, on the characters still to be read.\<close>

fun fill_words :: "jsstring \<Rightarrow> nat \<Rightarrow> int32 list \<Rightarrow> int32 list" where
  "fill_words [] lByteCount lWordArray = lWordArray"
| "fill_words (ch # rest) lByteCount lWordArray =
     (let lWordArrayIndex = (lByteCount - (lByteCount mod 4)) div 4;
          lBytePosition = (lByteCount mod 4) * 8
      in fill_words rest (lByteCount + 1)
           (lWordArray[lWordArrayIndex :=
              (lWordArray ! lWordArrayIndex) OR push_bit lBytePosition (ucast ch)]))"

definition convertToWordArray :: "jsstring \<Rightarrow> int32 list" where
  "convertToWordArray str =
     (let lWordCount = lWordCount (length str);
          lWordArray = fill_words str 0 (replicate lWordCount 0);
          lByteCount = length str;
          lWordArrayIndex = (lByteCount - (lByteCount mod 4)) div 4;
          lBytePosition = (lByteCount mod 4) * 8;
          lWordArray = lWordArray[lWordArrayIndex :=
              (lWordArray ! lWordArrayIndex) OR push_bit lBytePosition 0x80];
          lWordArray = lWordArray[lWordCount - 2 := push_bit 3 (of_nat (length str))];
          lWordArray = lWordArray[lWordCount - 1 := drop_bit 29 (of_nat (length str))]
      in lWordArray)"

text \<open>\<open>Number.prototype.toString(16)\<close> on a value below 256, in lower-case digits.\<close>

definition hex_digit :: "nat \<Rightarrow> jschar" where
  "hex_digit n = (if n < 10 then of_nat (48 + n) else of_nat (87 + n))"

definition toString16 :: "int32 \<Rightarrow> jsstring" where
  "toString16 v =
     (let n = unat v
      in if n < 16 then [hex_digit n] else [hex_digit (n div 16), hex_digit (n mod 16)])"

definition wordToHex :: "int32 \<Rightarrow> jsstring" where
  "wordToHex val =
     concat (map (\<lambda>i. let temp = toString16 (drop_bit (i * 8) val AND 255)
                       in if length temp = 1 then 0x30 # temp else temp) [0, 1, 2, 3])"

definition S11 :: nat where "S11 = 7"
definition S12 :: nat where "S12 = 12"
definition S13 :: nat where "S13 = 17"
definition S14 :: nat where "S14 = 22"
definition S21 :: nat where "S21 = 5"
definition S22 :: nat where "S22 = 9"
definition S23 :: nat where "S23 = 14"
definition S24 :: nat where "S24 = 20"
definition S31 :: nat where "S31 = 4"
definition S32 :: nat where "S32 = 11"
definition S33 :: nat where "S33 = 16"
definition S34 :: nat where "S34 = 23"
definition S41 :: nat where "S41 = 6"
definition S42 :: nat where "S42 = 10"
definition S43 :: nat where "S43 = 15"
definition S44 :: nat where "S44 = 21"

text \<open>
  The body of the \<open>for (k = 0; k < x.length; k += 16)\<close> loop is a sequence of 64
  assignments to the variables \<open>a\<close>, \<open>b\<close>, \<open>c\<close>, \<open>d\<close>, followed by the four additions
  of the saved values.  Each assignment has one of four shapes, named by its target:
  \<^verbatim>\<open>a=f(a,b,c,d,x,s,ac)\<close>, \<^verbatim>\<open>d=f(d,a,b,c,x,s,ac)\<close>, \<^verbatim>\<open>c=f(c,d,a,b,x,s,ac)\<close>,
  \<^verbatim>\<open>b=f(b,c,d,a,x,s,ac)\<close>, with \<open>f\<close> one of \<open>FF\<close>, \<open>GG\<close>, \<open>HH\<close>, \<open>II\<close>.
\<close>

type_synonym md5_state = "int32 \<times> int32 \<times> int32 \<times> int32"

type_synonym md5_round = "int32 \<Rightarrow> int32 \<Rightarrow> int32 \<Rightarrow> int32 \<Rightarrow> int32 \<Rightarrow> nat \<Rightarrow> int32 \<Rightarrow> int32"

fun assign_a :: "md5_round \<Rightarrow> int32 \<Rightarrow> nat \<Rightarrow> int32 \<Rightarrow> md5_state \<Rightarrow> md5_state" where
  "assign_a f x s ac (a, b, c, d) = (f a b c d x s ac, b, c, d)"

fun assign_d :: "md5_round \<Rightarrow> int32 \<Rightarrow> nat \<Rightarrow> int32 \<Rightarrow> md5_state \<Rightarrow> md5_state" where
  "assign_d f x s ac (a, b, c, d) = (a, b, c, f d a b c x s ac)"

fun assign_c :: "md5_round \<Rightarrow> int32 \<Rightarrow> nat \<Rightarrow> int32 \<Rightarrow> md5_state \<Rightarrow> md5_state" where
  "assign_c f x s ac (a, b, c, d) = (a, b, f c d a b x s ac, d)"

fun assign_b :: "md5_round \<Rightarrow> int32 \<Rightarrow> nat \<Rightarrow> int32 \<Rightarrow> md5_state \<Rightarrow> md5_state" where
  "assign_b f x s ac (a, b, c, d) = (a, f b c d a x s ac, c, d)"

text \<open>
  \<^verbatim>\<open>a=addUnsigned(a,AA); b=addUnsigned(b,BB); c=addUnsigned(c,CC); d=addUnsigned(d,DD);\<close>
\<close>

fun add_saved :: "md5_state \<Rightarrow> md5_state \<Rightarrow> md5_state" where
  "add_saved (AA, BB, CC, DD) (a, b, c, d) =
     (addUnsigned a AA, addUnsigned b BB, addUnsigned c CC, addUnsigned d DD)"

definition md5_steps :: "int32 list \<Rightarrow> nat \<Rightarrow> (md5_state \<Rightarrow> md5_state) list" where
  "md5_steps x k =
      [
       assign_a FF (x ! (k + 0)) S11 0xD76AA478,
       assign_d FF (x ! (k + 1)) S12 0xE8C7B756,
       assign_c FF (x ! (k + 2)) S13 0x242070DB,
       assign_b FF (x ! (k + 3)) S14 0xC1BDCEEE,
       assign_a FF (x ! (k + 4)) S11 0xF57C0FAF,
       assign_d FF (x ! (k + 5)) S12 0x4787C62A,
       assign_c FF (x ! (k + 6)) S13 0xA8304613,
       assign_b FF (x ! (k + 7)) S14 0xFD469501,
       assign_a FF (x ! (k + 8)) S11 0x698098D8,
       assign_d FF (x ! (k + 9)) S12 0x8B44F7AF,
       assign_c FF (x ! (k + 10)) S13 0xFFFF5BB1,
       assign_b FF (x ! (k + 11)) S14 0x895CD7BE,
       assign_a FF (x ! (k + 12)) S11 0x6B901122,
       assign_d FF (x ! (k + 13)) S12 0xFD987193,
       assign_c FF (x ! (k + 14)) S13 0xA679438E,
       assign_b FF (x ! (k + 15)) S14 0x49B40821,
       assign_a GG (x ! (k + 1)) S21 0xF61E2562,
       assign_d GG (x ! (k + 6)) S22 0xC040B340,
       assign_c GG (x ! (k + 11)) S23 0x265E5A51,
       assign_b GG (x ! (k + 0)) S24 0xE9B6C7AA,
       assign_a GG (x ! (k + 5)) S21 0xD62F105D,
       assign_d GG (x ! (k + 10)) S22 0x2441453,
       assign_c GG (x ! (k + 15)) S23 0xD8A1E681,
       assign_b GG (x ! (k + 4)) S24 0xE7D3FBC8,
       assign_a GG (x ! (k + 9)) S21 0x21E1CDE6,
       assign_d GG (x ! (k + 14)) S22 0xC33707D6,
       assign_c GG (x ! (k + 3)) S23 0xF4D50D87,
       assign_b GG (x ! (k + 8)) S24 0x455A14ED,
       assign_a GG (x ! (k + 13)) S21 0xA9E3E905,
       assign_d GG (x ! (k + 2)) S22 0xFCEFA3F8,
       assign_c GG (x ! (k + 7)) S23 0x676F02D9,
       assign_b GG (x ! (k + 12)) S24 0x8D2A4C8A,
       assign_a HH (x ! (k + 5)) S31 0xFFFA3942,
       assign_d HH (x ! (k + 8)) S32 0x8771F681,
       assign_c HH (x ! (k + 11)) S33 0x6D9D6122,
       assign_b HH (x ! (k + 14)) S34 0xFDE5380C,
       assign_a HH (x ! (k + 1)) S31 0xA4BEEA44,
       assign_d HH (x ! (k + 4)) S32 0x4BDECFA9,
       assign_c HH (x ! (k + 7)) S33 0xF6BB4B60,
       assign_b HH (x ! (k + 10)) S34 0xBEBFBC70,
       assign_a HH (x ! (k + 13)) S31 0x289B7EC6,
       assign_d HH (x ! (k + 0)) S32 0xEAA127FA,
       assign_c HH (x ! (k + 3)) S33 0xD4EF3085,
       assign_b HH (x ! (k + 6)) S34 0x4881D05,
       assign_a HH (x ! (k + 9)) S31 0xD9D4D039,
       assign_d HH (x ! (k + 12)) S32 0xE6DB99E5,
       assign_c HH (x ! (k + 15)) S33 0x1FA27CF8,
       assign_b HH (x ! (k + 2)) S34 0xC4AC5665,
       assign_a II (x ! (k + 0)) S41 0xF4292244,
       assign_d II (x ! (k + 7)) S42 0x432AFF97,
       assign_c II (x ! (k + 14)) S43 0xAB9423A7,
       assign_b II (x ! (k + 5)) S44 0xFC93A039,
       assign_a II (x ! (k + 12)) S41 0x655B59C3,
       assign_d II (x ! (k + 3)) S42 0x8F0CCC92,
       assign_c II (x ! (k + 10)) S43 0xFFEFF47D,
       assign_b II (x ! (k + 1)) S44 0x85845DD1,
       assign_a II (x ! (k + 8)) S41 0x6FA87E4F,
       assign_d II (x ! (k + 15)) S42 0xFE2CE6E0,
       assign_c II (x ! (k + 6)) S43 0xA3014314,
       assign_b II (x ! (k + 13)) S44 0x4E0811A1,
       assign_a II (x ! (k + 4)) S41 0xF7537E82,
       assign_d II (x ! (k + 11)) S42 0xBD3AF235,
       assign_c II (x ! (k + 2)) S43 0x2AD7D2BB,
       assign_b II (x ! (k + 9)) S44 0xEB86D391
      ]"

definition md5_body :: "int32 list \<Rightarrow> nat \<Rightarrow> md5_state \<Rightarrow> md5_state" where
  "md5_body x k saved = add_saved saved (fold (\<lambda>step st. step st) (md5_steps x k) saved)"

function md5_loop :: "int32 list \<Rightarrow> nat \<Rightarrow> md5_state \<Rightarrow> md5_state" where
  "md5_loop x k abcd = (if k < length x then md5_loop x (k + 16) (md5_body x k abcd) else abcd)"
  by pat_completeness auto
termination
  by (relation "measure (\<lambda>(x, k, abcd). length x - k)") auto

declare md5_loop.simps [simp del]

text \<open>
  \<open>String.prototype.toLowerCase\<close> on the digest: the digits of \<open>wordToHex\<close> are ASCII, where
  only \<open>A\<close>..\<open>Z\<close> change.
\<close>

definition toLowerCase :: "jsstring \<Rightarrow> jsstring" where
  "toLowerCase s = map (\<lambda>c. if 0x41 \<le> c \<and> c \<le> 0x5A then c + 0x20 else c) s"

definition md5 :: "jsstring \<Rightarrow> jsstring" where
  "md5 string =
     (let x = convertToWordArray string
      in case md5_loop x 0 (0x67452301, 0xEFCDAB89, 0x98BADCFE, 0x10325476) of
           (a, b, c, d) \<Rightarrow> toLowerCase (wordToHex a @ wordToHex b @ wordToHex c @ wordToHex d))"

text \<open>\<^verbatim>\<open>return md5(str).substring(0, 8);\<close>\<close>

definition hashString :: "jsstring \<Rightarrow> jsstring" where
  "hashString str = substring0 8 (md5 str)"

section \<open>The scraper's \<open>getHash\<close>\<close>

text \<open>
  \<^verbatim>\<open>crypto.createHash('md5').update(str).digest('hex').substring(0, 8)\<close> calls the MD5
  of Node's \<open>crypto\<close> module, which is no code of this repository.  It is modelled by the
  algorithm of RFC 1321 on the UTF-8 encoding of the string, which is what
  \<open>update\<close> hashes when it is given a string.
\<close>

type_synonym byte = "8 word"

text \<open>
  UTF-8 encoding of a sequence of UTF-16 code units: a surrogate pair is one code point of
  four bytes, an unpaired surrogate is encoded as U+FFFD.
\<close>

definition utf8_codepoint :: "nat \<Rightarrow> byte list" where
  "utf8_codepoint cp =
     (if cp < 0x80 then [of_nat cp]
      else if cp < 0x800 then [of_nat (0xC0 + cp div 64), of_nat (0x80 + cp mod 64)]
      else if cp < 0x10000 then
        [of_nat (0xE0 + cp div 4096), of_nat (0x80 + (cp div 64) mod 64), of_nat (0x80 + cp mod 64)]
      else
        [of_nat (0xF0 + cp div 262144), of_nat (0x80 + (cp div 4096) mod 64),
         of_nat (0x80 + (cp div 64) mod 64), of_nat (0x80 + cp mod 64)])"

definition is_high_surrogate :: "jschar \<Rightarrow> bool" where
  "is_high_surrogate c \<longleftrightarrow> 0xD800 \<le> c \<and> c \<le> 0xDBFF"

definition is_low_surrogate :: "jschar \<Rightarrow> bool" where
  "is_low_surrogate c \<longleftrightarrow> 0xDC00 \<le> c \<and> c \<le> 0xDFFF"

fun utf8_encode :: "jsstring \<Rightarrow> byte list" where
  "utf8_encode [] = []"
| "utf8_encode [c] =
     (if is_high_surrogate c \<or> is_low_surrogate c then utf8_codepoint 0xFFFD
      else utf8_codepoint (unat c))"
| "utf8_encode (c # c' # cs) =
     (if is_high_surrogate c \<and> is_low_surrogate c' then
        utf8_codepoint (0x10000 + (unat c - 0xD800) * 1024 + (unat c' - 0xDC00)) @ utf8_encode cs
      else if is_high_surrogate c \<or> is_low_surrogate c then
        utf8_codepoint 0xFFFD @ utf8_encode (c' # cs)
      else utf8_codepoint (unat c) @ utf8_encode (c' # cs))"

text \<open>
  RFC 1321, step 1 and 2: a one bit, zero bits up to 56 bytes modulo 64, and the length
  in bits as 64 bits, low byte first.
\<close>

fun le_bytes :: "nat \<Rightarrow> nat \<Rightarrow> byte list" where
  "le_bytes 0 v = []"
| "le_bytes (Suc n) v = of_nat (v mod 256) # le_bytes n (v div 256)"

definition rfc_pad :: "byte list \<Rightarrow> byte list" where
  "rfc_pad m = m @ [0x80] @ replicate ((119 - length m mod 64) mod 64) 0 @ le_bytes 8 (8 * length m)"

text \<open>Four bytes make one word, low byte first.\<close>

fun rfc_words :: "byte list \<Rightarrow> 32 word list" where
  "rfc_words (b0 # b1 # b2 # b3 # bs) =
     (ucast b0 OR push_bit 8 (ucast b1) OR push_bit 16 (ucast b2) OR push_bit 24 (ucast b3))
     # rfc_words bs"
| "rfc_words _ = []"

text \<open>RFC 1321, step 4: the table \<open>T\<close> and the rotation amounts.\<close>

definition rfc_T :: "32 word list" where
  "rfc_T =
     [0xd76aa478, 0xe8c7b756, 0x242070db, 0xc1bdceee, 0xf57c0faf, 0x4787c62a, 0xa8304613, 0xfd469501,
      0x698098d8, 0x8b44f7af, 0xffff5bb1, 0x895cd7be, 0x6b901122, 0xfd987193, 0xa679438e, 0x49b40821,
      0xf61e2562, 0xc040b340, 0x265e5a51, 0xe9b6c7aa, 0xd62f105d, 0x02441453, 0xd8a1e681, 0xe7d3fbc8,
      0x21e1cde6, 0xc33707d6, 0xf4d50d87, 0x455a14ed, 0xa9e3e905, 0xfcefa3f8, 0x676f02d9, 0x8d2a4c8a,
      0xfffa3942, 0x8771f681, 0x6d9d6122, 0xfde5380c, 0xa4beea44, 0x4bdecfa9, 0xf6bb4b60, 0xbebfbc70,
      0x289b7ec6, 0xeaa127fa, 0xd4ef3085, 0x04881d05, 0xd9d4d039, 0xe6db99e5, 0x1fa27cf8, 0xc4ac5665,
      0xf4292244, 0x432aff97, 0xab9423a7, 0xfc93a039, 0x655b59c3, 0x8f0ccc92, 0xffeff47d, 0x85845dd1,
      0x6fa87e4f, 0xfe2ce6e0, 0xa3014314, 0x4e0811a1, 0xf7537e82, 0xbd3af235, 0x2ad7d2bb, 0xeb86d391]"

definition rfc_shift :: "nat list" where
  "rfc_shift =
     [7, 12, 17, 22, 7, 12, 17, 22, 7, 12, 17, 22, 7, 12, 17, 22,
      5, 9, 14, 20, 5, 9, 14, 20, 5, 9, 14, 20, 5, 9, 14, 20,
      4, 11, 16, 23, 4, 11, 16, 23, 4, 11, 16, 23, 4, 11, 16, 23,
      6, 10, 15, 21, 6, 10, 15, 21, 6, 10, 15, 21, 6, 10, 15, 21]"

text \<open>One of the 64 operations on the block \<open>X\<close>, then the rotation of the registers.\<close>

fun rfc_op :: "32 word list \<Rightarrow> nat \<Rightarrow> md5_state \<Rightarrow> md5_state" where
  "rfc_op X i (a, b, c, d) =
     (let f = (if i < 16 then (b AND c) OR (NOT b AND d)
               else if i < 32 then (b AND d) OR (c AND NOT d)
               else if i < 48 then b XOR c XOR d
               else c XOR (b OR NOT d));
          g = (if i < 16 then i
               else if i < 32 then (5 * i + 1) mod 16
               else if i < 48 then (3 * i + 5) mod 16
               else (7 * i) mod 16);
          t = a + f + X ! g + rfc_T ! i
      in (d, b + (push_bit (rfc_shift ! i) t OR drop_bit (32 - rfc_shift ! i) t), b, c))"

text \<open>The 64 operations in turn, from operation \<open>i\<close> on.\<close>

function rfc_rounds :: "32 word list \<Rightarrow> nat \<Rightarrow> md5_state \<Rightarrow> md5_state" where
  "rfc_rounds X i st = (if i < 64 then rfc_rounds X (i + 1) (rfc_op X i st) else st)"
  by pat_completeness auto
termination
  by (relation "measure (\<lambda>(X, i, st). 64 - i)") auto

declare rfc_rounds.simps [simp del]

fun rfc_block :: "md5_state \<Rightarrow> 32 word list \<Rightarrow> md5_state" where
  "rfc_block (a, b, c, d) X =
     (case rfc_rounds X 0 (a, b, c, d) of
        (a', b', c', d') \<Rightarrow> (a + a', b + b', c + c', d + d'))"

function rfc_blocks :: "md5_state \<Rightarrow> 32 word list \<Rightarrow> md5_state" where
  "rfc_blocks st ws = (if length ws < 16 then st else rfc_blocks (rfc_block st (take 16 ws)) (drop 16 ws))"
  by pat_completeness auto
termination
  by (relation "measure (\<lambda>(st, ws). length ws)") auto

declare rfc_blocks.simps [simp del]

definition hex_byte :: "byte \<Rightarrow> jsstring" where
  "hex_byte b = [hex_digit (unat b div 16), hex_digit (unat b mod 16)]"

definition word_bytes :: "32 word \<Rightarrow> byte list" where
  "word_bytes w = map (\<lambda>i. ucast (drop_bit (8 * i) w)) [0, 1, 2, 3]"

text \<open>The digest as \<open>digest('hex')\<close> prints it: 32 lower-case hexadecimal digits.\<close>

definition md5_hex :: "byte list \<Rightarrow> jsstring" where
  "md5_hex m =
     (case rfc_blocks (0x67452301, 0xefcdab89, 0x98badcfe, 0x10325476) (rfc_words (rfc_pad m)) of
        (a, b, c, d) \<Rightarrow> concat (map hex_byte (word_bytes a @ word_bytes b @ word_bytes c @ word_bytes d)))"

text \<open>
  \<^verbatim>\<open>
  function getHash(str) {
    return crypto.createHash('md5').update(str).digest('hex').substring(0, 8);
  }
  \<close>
\<close>

definition getHash :: "jsstring \<Rightarrow> jsstring" where
  "getHash str = substring0 8 (md5_hex (utf8_encode str))"

section \<open>The scraper's data\<close>

text \<open>
  JavaScript values that may be \<open>undefined\<close> or \<open>null\<close> are options.  Numbers are the
  integers the provider delivers (episode numbers and counts); a number that is not an
  integer is outside the model.
\<close>

text \<open>\<open>a || b\<close> on strings: \<open>undefined\<close>, \<open>null\<close> and the empty string are falsy.\<close>

definition or_string :: "jsstring option \<Rightarrow> jsstring option \<Rightarrow> jsstring option" where
  "or_string a b = (case a of None \<Rightarrow> b | Some v \<Rightarrow> if v = [] then b else Some v)"

definition or_else :: "jsstring option \<Rightarrow> jsstring \<Rightarrow> jsstring" where
  "or_else a b = (case a of None \<Rightarrow> b | Some v \<Rightarrow> if v = [] then b else v)"

text \<open>\<open>a || []\<close> on arrays: every array is truthy.\<close>

definition or_array :: "'a list option \<Rightarrow> 'a list" where
  "or_array a = (case a of None \<Rightarrow> [] | Some xs \<Rightarrow> xs)"

text \<open>\<open>a || b\<close> on counts: \<open>undefined\<close> and 0 are falsy.\<close>

definition or_number :: "nat option \<Rightarrow> nat \<Rightarrow> nat" where
  "or_number a b = (case a of None \<Rightarrow> b | Some n \<Rightarrow> if n = 0 then b else n)"

text \<open>\<open>String(n)\<close> of an integer.\<close>

function nat_to_string :: "nat \<Rightarrow> jsstring" where
  "nat_to_string n =
     (if n < 10 then [of_nat (48 + n)] else nat_to_string (n div 10) @ [of_nat (48 + n mod 10)])"
  by pat_completeness auto
termination
  by (relation "measure id") auto

declare nat_to_string.simps [simp del]

definition number_to_string :: "int \<Rightarrow> jsstring" where
  "number_to_string n =
     (if n < 0 then 0x2D # nat_to_string (nat (- n)) else nat_to_string (nat n))"

text \<open>\<open>Array.prototype.join\<close>.\<close>

fun join :: "jsstring \<Rightarrow> jsstring list \<Rightarrow> jsstring" where
  "join sep [] = []"
| "join sep [x] = x"
| "join sep (x # y # ys) = x @ sep @ join sep (y # ys)"

text \<open>An element of \<open>detailedInfo.episodes\<close>, as the provider returns it.\<close>

record episode_info =
  ep_number :: "int option"
  ep_id :: "jsstring option"
  ep_title :: "jsstring option"

text \<open>An entry of a category listing (\<open>basicInfo\<close>).\<close>

record basic_info =
  b_id :: jsstring
  b_title :: "jsstring option"
  b_url :: "jsstring option"
  b_image :: "jsstring option"
  b_japaneseTitle :: "jsstring option"
  b_type :: "jsstring option"
  b_sub :: "nat option"
  b_dub :: "nat option"
  b_episodes :: "nat option"

text \<open>The result of the provider's \<open>fetchAnimeInfo\<close> (\<open>detailedInfo\<close>).\<close>

record detailed_info =
  d_title :: "jsstring option"
  d_url :: "jsstring option"
  d_japaneseTitle :: "jsstring option"
  d_description :: "jsstring option"
  d_image :: "jsstring option"
  d_genres :: "jsstring list option"
  d_status :: "jsstring option"
  d_type :: "jsstring option"
  d_studios :: "jsstring list option"
  d_duration :: "jsstring option"
  d_season :: "jsstring option"
  d_releaseDate :: "jsstring option"
  d_producers :: "jsstring list option"
  d_rating :: "jsstring option"
  d_totalEpisodes :: "nat option"
  d_episodes :: "episode_info list option"

text \<open>An episode of the Artifact.\<close>

record episode =
  episode_number :: jsstring
  episode_id :: "jsstring option"
  episode_title :: jsstring
  has_videos :: bool

text \<open>The Artifact: the object \<open>processAnimeData\<close> returns and \<open>saveAnime\<close> writes.\<close>

record anime_data =
  title :: "jsstring option"
  animekai_id :: jsstring
  url :: "jsstring option"
  alternative_titles :: jsstring
  description :: jsstring
  cover_image :: "jsstring option"
  genres :: "jsstring list"
  status :: jsstring
  anime_type :: jsstring
  studio :: jsstring
  duration :: jsstring
  season :: jsstring
  released :: jsstring
  producers :: "jsstring list"
  rating :: "jsstring option"
  total_episodes :: nat
  available_episodes :: nat
  sub_episodes :: nat
  dub_episodes :: nat
  episodes :: "episode list"
  scraped_at :: jsstring

text \<open>
  \<^verbatim>\<open>
  const episodes = (detailedInfo?.episodes || []).map(ep => ({
    episode_number: String(ep.number || ''),
    episode_id: ep.id,
    episode_title: ep.title || `Episode ${ep.number}`,
    has_videos: true
  }));
  \<close>
  \<open>ep.number || ''\<close> is the empty string when the number is \<open>undefined\<close> or 0; the
  template prints \<open>undefined\<close> for a missing number.
\<close>

definition process_episode :: "episode_info \<Rightarrow> episode" where
  "process_episode ep =
     \<lparr> episode_number =
         (case ep_number ep of None \<Rightarrow> [] | Some n \<Rightarrow> if n = 0 then [] else number_to_string n),
       episode_id = ep_id ep,
       episode_title =
         or_else (ep_title ep)
           (js ''Episode '' @
            (case ep_number ep of None \<Rightarrow> js ''undefined'' | Some n \<Rightarrow> number_to_string n)),
       has_videos = True \<rparr>"

text \<open>
  \<open>processAnimeData\<close>; \<open>detailedInfo\<close> is \<open>None\<close> when \<open>fetchAnimeInfo\<close> returned
  \<open>null\<close>, and \<open>detailedInfo?.f\<close> is then \<open>undefined\<close>.  The third argument is the
  value of \<open>new Date().toISOString()\<close>.
\<close>

definition processAnimeData :: "basic_info \<Rightarrow> detailed_info option \<Rightarrow> jsstring \<Rightarrow> anime_data" where
  "processAnimeData basicInfo detailedInfo now =
     (let eps = map process_episode (or_array (Option.bind detailedInfo d_episodes))
      in \<lparr> title = or_string (Option.bind detailedInfo d_title) (b_title basicInfo),
           animekai_id = b_id basicInfo,
           url = or_string (b_url basicInfo) (Option.bind detailedInfo d_url),
           alternative_titles =
             or_else (or_string (Option.bind detailedInfo d_japaneseTitle) (b_japaneseTitle basicInfo)) [],
           description = or_else (Option.bind detailedInfo d_description) [],
           cover_image = or_string (Option.bind detailedInfo d_image) (b_image basicInfo),
           genres = or_array (Option.bind detailedInfo d_genres),
           status = or_else (Option.bind detailedInfo d_status) [],
           anime_type = or_else (or_string (b_type basicInfo) (Option.bind detailedInfo d_type)) [],
           studio =
             or_else (map_option (join (js '', '')) (Option.bind detailedInfo d_studios)) [],
           duration = or_else (Option.bind detailedInfo d_duration) [],
           season = or_else (Option.bind detailedInfo d_season) [],
           released = or_else (Option.bind detailedInfo d_releaseDate) [],
           producers = or_array (Option.bind detailedInfo d_producers),
           rating = or_string (Option.bind detailedInfo d_rating) None,
           total_episodes =
             or_number (Option.bind detailedInfo d_totalEpisodes)
               (or_number (b_episodes basicInfo) (length eps)),
           available_episodes = length eps,
           sub_episodes = or_number (b_sub basicInfo) 0,
           dub_episodes = or_number (b_dub basicInfo) 0,
           episodes = eps,
           scraped_at = now \<rparr>)"

section \<open>The index projection\<close>

record index_entry =
  ix_title :: "jsstring option"
  ix_animekai_id :: jsstring
  ix_cover_image :: "jsstring option"
  ix_status :: jsstring
  ix_type :: jsstring
  ix_genres :: "jsstring list"
  ix_total_episodes :: nat
  ix_available_episodes :: nat

record anime_index =
  idx_total_anime :: nat
  idx_total_episodes :: nat
  idx_last_updated :: jsstring
  idx_anime_list :: "index_entry list"

text \<open>The object \<open>createIndex\<close> builds; \<open>reduce\<close> is a left fold.\<close>

definition build_index :: "anime_data list \<Rightarrow> jsstring \<Rightarrow> anime_index" where
  "build_index animeList now =
     \<lparr> idx_total_anime = length animeList,
       idx_total_episodes =
         foldl (\<lambda>sum a. sum + or_number (Some (available_episodes a)) 0) 0 animeList,
       idx_last_updated = now,
       idx_anime_list =
         map (\<lambda>a. \<lparr> ix_title = title a,
                       ix_animekai_id = animekai_id a,
                       ix_cover_image = cover_image a,
                       ix_status = status a,
                       ix_type = anime_type a,
                       ix_genres = genres a,
                       ix_total_episodes = total_episodes a,
                       ix_available_episodes = available_episodes a \<rparr>) animeList \<rparr>"

section \<open>Files, log and provider\<close>

text \<open>
  The run's effects are a file store, the sequence of calls into Node's \<open>fs\<close> module and
  the log.  A document is stored as the object given to \<open>JSON.stringify\<close>.
\<close>

datatype document = Anime_doc anime_data | Index_doc anime_index

datatype fs_op =
    MkdirSync jsstring
  | WriteFileSync jsstring document
  | RenameSync jsstring jsstring

datatype js_error = TypeError | FsError | ProviderError

datatype log_msg =
    Fetching_info "jsstring option"
  | Error_fetching_info jsstring js_error
  | Error_processing "jsstring option" js_error

record world =
  files :: "jsstring \<rightharpoonup> document"
  fs_ops :: "fs_op list"
  log_lines :: "log_msg list"

text \<open>
  What the run does not decide: the answer of the provider's \<open>fetchAnimeInfo\<close> for an id
  (a result or an exception), whether \<open>fs.writeFileSync\<close> succeeds on a path (it throws
  otherwise, and is taken to write nothing then), and the clock.
\<close>

record env =
  provider_fetchAnimeInfo :: "jsstring \<Rightarrow> js_error + detailed_info"
  writable :: "jsstring \<Rightarrow> bool"
  clock :: jsstring

definition log :: "log_msg \<Rightarrow> world \<Rightarrow> world" where
  "log message w = w\<lparr>log_lines := log_lines w @ [message]\<rparr>"

definition CONFIG_animeDir :: jsstring where
  "CONFIG_animeDir = js ''../scraped_data/current/anime''"

definition CONFIG_indexFile :: jsstring where
  "CONFIG_indexFile = js ''../scraped_data/current/anime_index.json''"

definition CONFIG_concurrency :: nat where
  "CONFIG_concurrency = 5"

text \<open>
  \<open>path.join(dir, name)\<close> for a name without a separator and different from \<open>.\<close> and
  \<open>..\<close>, which is what \<open>saveAnime\<close> passes: the name ends in \<open>.json\<close>, and
  \<open>sanitizeFilename\<close> has removed every slash and backslash.
\<close>

definition path_join :: "jsstring \<Rightarrow> jsstring \<Rightarrow> jsstring" where
  "path_join dir name = dir @ js ''/'' @ name"

text \<open>
  \<^verbatim>\<open>
  async function fetchAnimeInfo(animeId) {
    try {
      const info = await animekai.fetchAnimeInfo(animeId);
      return info;
    } catch (error) {
      log(`Error fetching info for ${animeId}: ${error.message}`);
      return null;
    }
  }
  \<close>
\<close>

definition fetchAnimeInfo :: "env \<Rightarrow> jsstring \<Rightarrow> world \<Rightarrow> detailed_info option \<times> world" where
  "fetchAnimeInfo e animeId w =
     (case provider_fetchAnimeInfo e animeId of
        Inr info \<Rightarrow> (Some info, w)
      | Inl error \<Rightarrow> (None, log (Error_fetching_info animeId error) w))"

text \<open>
  \<^verbatim>\<open>
  function saveAnime(animeData) {
    const filename = `${sanitizeFilename(animeData.title)}_${getHash(animeData.animekai_id)}.json`;
    const filepath = path.join(CONFIG.animeDir, filename);
    fs.writeFileSync(filepath, JSON.stringify(animeData, null, 2));
    return filename;
  }
  \<close>
  \<open>sanitizeFilename(undefined)\<close> throws a \<open>TypeError\<close> (\<open>title.replace\<close>).
\<close>

definition saveAnime_filename :: "anime_data \<Rightarrow> js_error + jsstring" where
  "saveAnime_filename animeData =
     (case title animeData of
        None \<Rightarrow> Inl TypeError
      | Some t \<Rightarrow> Inr (sanitizeFilename t @ js ''_'' @ getHash (animekai_id animeData) @ js ''.json''))"

definition saveAnime :: "env \<Rightarrow> anime_data \<Rightarrow> world \<Rightarrow> (js_error + jsstring) \<times> world" where
  "saveAnime e animeData w =
     (case saveAnime_filename animeData of
        Inl error \<Rightarrow> (Inl error, w)
      | Inr filename \<Rightarrow>
          (let filepath = path_join CONFIG_animeDir filename
           in if writable e filepath
              then (Inr filename,
                    w\<lparr>files := (files w)(filepath \<mapsto> Anime_doc animeData),
                      fs_ops := fs_ops w @ [WriteFileSync filepath (Anime_doc animeData)]\<rparr>)
              else (Inl FsError, w)))"

text \<open>\<open>createIndex\<close>: the index object is built, written to \<open>CONFIG.indexFile\<close> and returned.\<close>

definition createIndex :: "env \<Rightarrow> anime_data list \<Rightarrow> world \<Rightarrow> (js_error + anime_index) \<times> world" where
  "createIndex e animeList w =
     (let index = build_index animeList (clock e)
      in if writable e CONFIG_indexFile
         then (Inr index,
               w\<lparr>files := (files w)(CONFIG_indexFile \<mapsto> Index_doc index),
                 fs_ops := fs_ops w @ [WriteFileSync CONFIG_indexFile (Index_doc index)]\<rparr>)
         else (Inl FsError, w))"

text \<open>
  \<^verbatim>\<open>
  async function processBatch(batch) {
    const results = [];
    for (const anime of batch) {
      try {
        log(`  Fetching info: ${anime.title}`);
        const info = await fetchAnimeInfo(anime.id);
        const processed = processAnimeData(anime, info);
        saveAnime(processed);
        results.push(processed);
        await sleep(CONFIG.delayMs);
      } catch (error) {
        log(`  Error processing ${anime.title}: ${error.message}`);
      }
    }
    return results;
  }
  \<close>
  The loop, with \<open>results\<close> as accumulator.
\<close>

fun processBatch_loop :: "env \<Rightarrow> basic_info list \<Rightarrow> anime_data list \<Rightarrow> world
    \<Rightarrow> anime_data list \<times> world" where
  "processBatch_loop e [] results w = (results, w)"
| "processBatch_loop e (anime # rest) results w =
     (case fetchAnimeInfo e (b_id anime) (log (Fetching_info (b_title anime)) w) of
        (info, w1) \<Rightarrow>
          (let processed = processAnimeData anime info (clock e)
           in case saveAnime e processed w1 of
                (Inr filename, w2) \<Rightarrow> processBatch_loop e rest (results @ [processed]) w2
              | (Inl error, w2) \<Rightarrow>
                  processBatch_loop e rest results
                    (log (Error_processing (b_title anime) error) w2)))"

definition processBatch :: "env \<Rightarrow> basic_info list \<Rightarrow> world \<Rightarrow> anime_data list \<times> world" where
  "processBatch e batch w = processBatch_loop e batch [] w"

section \<open>\<open>main\<close>: selecting the Targets\<close>

text \<open>
  \<open>allAnime\<close> is a JavaScript \<open>Map\<close>: keys in insertion order, \<open>set\<close> on a present key
  replaces the value in place, on a new key appends.
\<close>

type_synonym 'v js_map = "(jsstring \<times> 'v) list"

definition map_has :: "'v js_map \<Rightarrow> jsstring \<Rightarrow> bool" where
  "map_has m k \<longleftrightarrow> k \<in> set (map fst m)"

fun map_set :: "'v js_map \<Rightarrow> jsstring \<Rightarrow> 'v \<Rightarrow> 'v js_map" where
  "map_set [] k v = [(k, v)]"
| "map_set ((k', v') # m) k v = (if k' = k then (k, v) # m else (k', v') # map_set m k v)"

definition map_values :: "'v js_map \<Rightarrow> 'v list" where
  "map_values m = map snd m"

text \<open>
  \<^verbatim>\<open>
  for (const anime of animeList) {
    if (!allAnime.has(anime.id)) {
      allAnime.set(anime.id, anime);
    }
  }
  \<close>
  once for the listing of every category.
\<close>

definition add_listing :: "basic_info list \<Rightarrow> basic_info js_map \<Rightarrow> basic_info js_map" where
  "add_listing animeList allAnime =
     fold (\<lambda>anime m. if \<not> map_has m (b_id anime) then map_set m (b_id anime) anime else m)
       animeList allAnime"

definition collect_all :: "basic_info list list \<Rightarrow> basic_info js_map" where
  "collect_all listings = fold add_listing listings []"

text \<open>\<open>xs.slice(0, n)\<close>; a negative \<open>n\<close> counts from the end.\<close>

definition slice0 :: "int \<Rightarrow> 'a list \<Rightarrow> 'a list" where
  "slice0 n xs = (if n < 0 then take (length xs - nat (- n)) xs else take (nat n) xs)"

text \<open>
  \<^verbatim>\<open>
  let animeToProcess = Array.from(allAnime.values());
  if (limit && animeToProcess.length > limit) {
    animeToProcess = animeToProcess.slice(0, limit);
  }
  \<close>
  \<open>limit\<close> is \<open>null\<close> for a full scrape.
\<close>

definition animeToProcess :: "basic_info list list \<Rightarrow> int option \<Rightarrow> basic_info list" where
  "animeToProcess listings limit =
     (let all = map_values (collect_all listings)
      in case limit of
           None \<Rightarrow> all
         | Some l \<Rightarrow> if l \<noteq> 0 \<and> int (length all) > l then slice0 l all else all)"

text \<open>
  \<^verbatim>\<open>
  for (let i = 0; i < animeToProcess.length; i += batchSize) {
    const batch = animeToProcess.slice(i, i + batchSize);
    const results = await processBatch(batch);
    processedAnime.push(...results);
  }
  \<close>
\<close>

function main_loop :: "env \<Rightarrow> basic_info list \<Rightarrow> nat \<Rightarrow> anime_data list \<Rightarrow> world
    \<Rightarrow> anime_data list \<times> world" where
  "main_loop e targets i processedAnime w =
     (if i < length targets then
        (case processBatch e (take CONFIG_concurrency (drop i targets)) w of
           (results, w') \<Rightarrow> main_loop e targets (i + CONFIG_concurrency) (processedAnime @ results) w')
      else (processedAnime, w))"
  by pat_completeness auto
termination
  by (relation "measure (\<lambda>(e, targets, i, processedAnime, w). length targets - i)")
     (auto simp: CONFIG_concurrency_def)

declare main_loop.simps [simp del]

section \<open>The browser consumer\<close>

text \<open>
  \<open>parseInt(s)\<close> without radix: leading white space, an optional sign, an optional
  \<open>0x\<close> prefix, then the longest prefix of digits; \<open>NaN\<close> (here \<open>None\<close>) when there is no
  digit.  The result is exact here; JavaScript rounds beyond \<open>2^53\<close>.
\<close>

definition digit_value :: "jschar \<Rightarrow> nat option" where
  "digit_value c =
     (if 0x30 \<le> c \<and> c \<le> 0x39 then Some (unat c - 0x30)
      else if 0x61 \<le> c \<and> c \<le> 0x7A then Some (unat c - 0x61 + 10)
      else if 0x41 \<le> c \<and> c \<le> 0x5A then Some (unat c - 0x41 + 10)
      else None)"

definition is_digit :: "nat \<Rightarrow> jschar \<Rightarrow> bool" where
  "is_digit radix c = (case digit_value c of None \<Rightarrow> False | Some v \<Rightarrow> v < radix)"

definition digits_value :: "nat \<Rightarrow> jsstring \<Rightarrow> nat" where
  "digits_value radix ds = foldl (\<lambda>acc c. acc * radix + the (digit_value c)) 0 ds"

definition parseInt :: "jsstring \<Rightarrow> int option" where
  "parseInt string =
     (let S = dropWhile is_space string;
          sign = (if S \<noteq> [] \<and> hd S = 0x2D then - 1 else 1 :: int);
          S = (if S \<noteq> [] \<and> (hd S = 0x2B \<or> hd S = 0x2D) then tl S else S);
          hex = (length S \<ge> 2 \<and> hd S = 0x30 \<and> (hd (tl S) = 0x78 \<or> hd (tl S) = 0x58));
          R = (if hex then 16 else 10);
          S = (if hex then drop 2 S else S);
          Z = takeWhile (is_digit R) S
      in if Z = [] then None else Some (sign * int (digits_value R Z)))"

text \<open>
  \<^verbatim>\<open>
  const sortedEpisodes = [...episodes].sort((a, b) => {
      const numA = parseInt(a.episode_number) || 0;
      const numB = parseInt(b.episode_number) || 0;
      return numA - numB;
  });
  \<close>
  \<open>parseInt(..) || 0\<close> is the rank of an episode: \<open>NaN\<close> and 0 give 0.
  \<open>Array.prototype.sort\<close> is stable and the comparator is the difference of the ranks, so
  the result is the stable sort of the copy by rank.
\<close>

definition episode_rank :: "episode \<Rightarrow> int" where
  "episode_rank a = (case parseInt (episode_number a) of None \<Rightarrow> 0 | Some n \<Rightarrow> if n = 0 then 0 else n)"

definition sortedEpisodes :: "episode list \<Rightarrow> episode list" where
  "sortedEpisodes eps = sort_key episode_rank eps"

text \<open>
  \<open>playEpisode\<close> decides whether an episode can be played:
  \<^verbatim>\<open>
  const hasOldFormat = episode.video_sources && episode.video_sources.length > 0;
  const hasNewFormat = episode.episode_id;
  if (!hasOldFormat && !hasNewFormat) { alert('No video source available'); return; }
  \<close>
  The episode objects that \<open>processAnimeData\<close> writes have no \<open>video_sources\<close> key, so
  \<open>episode.video_sources\<close> is \<open>undefined\<close> for them; an \<open>episode_id\<close> that is
  \<open>undefined\<close> or empty is falsy.
\<close>

definition video_sources :: "episode \<Rightarrow> jsstring list option" where
  "video_sources ep = None"

definition has_video_source :: "episode \<Rightarrow> bool" where
  "has_video_source ep \<longleftrightarrow>
     (let hasOldFormat = (case video_sources ep of None \<Rightarrow> False | Some vs \<Rightarrow> length vs > 0);
          hasNewFormat = (case episode_id ep of None \<Rightarrow> False | Some i \<Rightarrow> i \<noteq> [])
      in \<not> (\<not> hasOldFormat \<and> \<not> hasNewFormat))"

text \<open>
  \<open>loadAnimeData\<close> receives an entry of \<open>anime_index.json\<close> and computes the file name:
  \<^verbatim>\<open>
  // Generate filename from URL (same logic as scraper)
  const urlHash = hashString(animeInfo.url);
  const safeTitle = sanitizeFilename(animeInfo.title);
  const filename = `${safeTitle}_${urlHash}.json`;
  \<close>
  \<open>hashString(undefined)\<close> and \<open>sanitizeFilename(undefined)\<close> throw a \<open>TypeError\<close>
  (\<open>str.length\<close>, \<open>title.replace\<close>).
\<close>

record anime_info =
  info_title :: "jsstring option"
  info_url :: "jsstring option"

definition loadAnimeData_filename :: "anime_info \<Rightarrow> js_error + jsstring" where
  "loadAnimeData_filename animeInfo =
     (case info_url animeInfo of
        None \<Rightarrow> Inl TypeError
      | Some u \<Rightarrow>
          (let urlHash = hashString u
           in case info_title animeInfo of
                None \<Rightarrow> Inl TypeError
              | Some t \<Rightarrow> Inr (sanitizeFilename_web t @ js ''_'' @ urlHash @ js ''.json'')))"

text \<open>
  What the consumer reads from an entry that \<open>createIndex\<close> wrote: the entry has the keys
  \<open>title\<close>, \<open>animekai_id\<close>, \<open>cover_image\<close>, \<open>status\<close>, \<open>type\<close>, \<open>genres\<close>,
  \<open>total_episodes\<close> and \<open>available_episodes\<close>, and no \<open>url\<close>.
\<close>

definition read_index_entry :: "index_entry \<Rightarrow> anime_info" where
  "read_index_entry entry = \<lparr> info_title = ix_title entry, info_url = None \<rparr>"

section \<open>What a batch does, target by target\<close>

text \<open>
  The Artifact that \<open>processBatch\<close> assembles for a listing entry, whether \<open>saveAnime\<close>
  succeeds on an Artifact, where it is stored, and the log lines of one Target.
\<close>

definition fetched_info :: "env \<Rightarrow> basic_info \<Rightarrow> detailed_info option" where
  "fetched_info e anime =
     (case provider_fetchAnimeInfo e (b_id anime) of Inr info \<Rightarrow> Some info | Inl error \<Rightarrow> None)"

definition processed_of :: "env \<Rightarrow> basic_info \<Rightarrow> anime_data" where
  "processed_of e anime = processAnimeData anime (fetched_info e anime) (clock e)"

definition save_error :: "env \<Rightarrow> anime_data \<Rightarrow> js_error option" where
  "save_error e a =
     (case saveAnime_filename a of
        Inl error \<Rightarrow> Some error
      | Inr filename \<Rightarrow>
          if writable e (path_join CONFIG_animeDir filename) then None else Some FsError)"

definition saved :: "env \<Rightarrow> anime_data \<Rightarrow> bool" where
  "saved e a \<longleftrightarrow> save_error e a = None"

definition filepath_of :: "anime_data \<Rightarrow> jsstring" where
  "filepath_of a =
     (case saveAnime_filename a of Inl error \<Rightarrow> [] | Inr filename \<Rightarrow> path_join CONFIG_animeDir filename)"

definition store :: "anime_data \<Rightarrow> (jsstring \<rightharpoonup> document) \<Rightarrow> (jsstring \<rightharpoonup> document)" where
  "store a fs = fs(filepath_of a \<mapsto> Anime_doc a)"

definition target_log :: "env \<Rightarrow> basic_info \<Rightarrow> log_msg list" where
  "target_log e anime =
     [Fetching_info (b_title anime)]
     @ (case provider_fetchAnimeInfo e (b_id anime) of
          Inr info \<Rightarrow> []
        | Inl error \<Rightarrow> [Error_fetching_info (b_id anime) error])
     @ (case save_error e (processed_of e anime) of
          None \<Rightarrow> []
        | Some error \<Rightarrow> [Error_processing (b_title anime) error])"

definition write_op :: "anime_data \<Rightarrow> fs_op" where
  "write_op a = WriteFileSync (filepath_of a) (Anime_doc a)"

text \<open>The effect of one Target of the batch on files, \<open>fs\<close> calls and log.\<close>

definition target_effect :: "env \<Rightarrow> basic_info \<Rightarrow> world \<Rightarrow> world" where
  "target_effect e anime w =
     (let a = processed_of e anime
      in w\<lparr>files := (if saved e a then store a (files w) else files w),
           fs_ops := fs_ops w @ (if saved e a then [write_op a] else []),
           log_lines := log_lines w @ target_log e anime\<rparr>)"

text \<open>
  The pattern the specification asks of a write: the document goes to a temporary path
  and is then renamed to its final path.
\<close>

definition temp_then_rename :: "jsstring \<Rightarrow> document \<Rightarrow> fs_op list \<Rightarrow> bool" where
  "temp_then_rename path doc ops =
     (case ops of
        [WriteFileSync tmp d, RenameSync src dst] \<Rightarrow>
          tmp \<noteq> path \<and> d = doc \<and> src = tmp \<and> dst = path
      | _ \<Rightarrow> False)"

section \<open>Sample data\<close>

definition sample_basic :: basic_info where
  "sample_basic =
     \<lparr> b_id = js ''one-piece-dk6r'',
       b_title = Some (js ''One Piece''),
       b_url = Some (js ''https://animekai.to/watch/one-piece-dk6r''),
       b_image = None,
       b_japaneseTitle = None,
       b_type = Some (js ''TV''),
       b_sub = Some 2,
       b_dub = None,
       b_episodes = Some 2 \<rparr>"

definition sample_episode_info :: "int \<Rightarrow> jsstring \<Rightarrow> episode_info" where
  "sample_episode_info n i = \<lparr> ep_number = Some n, ep_id = Some i, ep_title = None \<rparr>"

text \<open>A provider answer that lists episode 2 before episode 1.\<close>

definition sample_detailed :: detailed_info where
  "sample_detailed =
     \<lparr> d_title = Some (js ''One Piece''),
       d_url = None,
       d_japaneseTitle = None,
       d_description = None,
       d_image = None,
       d_genres = None,
       d_status = None,
       d_type = None,
       d_studios = None,
       d_duration = None,
       d_season = None,
       d_releaseDate = None,
       d_producers = None,
       d_rating = None,
       d_totalEpisodes = None,
       d_episodes = Some [sample_episode_info 2 (js ''ep-2''), sample_episode_info 1 (js ''ep-1'')] \<rparr>"

text \<open>A provider answer whose one episode has an empty id.\<close>

definition sample_detailed_no_id :: detailed_info where
  "sample_detailed_no_id = sample_detailed\<lparr> d_episodes := Some [sample_episode_info 1 []] \<rparr>"

definition sample_now :: jsstring where
  "sample_now = js ''2025-01-01T00:00:00.000Z''"

definition sample_provider :: "jsstring \<Rightarrow> js_error + detailed_info" where
  "sample_provider animeId = Inr sample_detailed"


definition all_writable :: "jsstring \<Rightarrow> bool" where
  "all_writable p = True"

definition sample_env :: env where
  "sample_env = \<lparr> provider_fetchAnimeInfo = sample_provider, writable = all_writable, clock = sample_now \<rparr>"


definition empty_world :: world where
  "empty_world = \<lparr> files = Map.empty, fs_ops = [], log_lines = [] \<rparr>"

definition sample_artifact :: anime_data where
  "sample_artifact = processAnimeData sample_basic (Some sample_detailed) sample_now"

text \<open>An episode that has nothing but its ordinal.\<close>

definition ordinal_episode :: "jsstring \<Rightarrow> episode" where
  "ordinal_episode n = \<lparr> episode_number = n, episode_id = None, episode_title = [], has_videos = True \<rparr>"

section \<open>Properties of \<open>sanitizeFilename\<close>\<close>

lemma replace_space_runs_no_space: "\<forall>c \<in> set (replace_space_runs s). \<not> is_space c"
proof (induction s rule: replace_space_runs.induct)
  case 1
  show ?case by simp
next
  case (2 c cs)
  have us: "\<not> is_space (0x5F :: jschar)"
    by (simp add: is_space_def)
  show ?case
  proof (cases "is_space c")
    case True
    with 2(1) us show ?thesis by simp
  next
    case False
    with 2(2) show ?thesis by simp
  qed
qed

lemma replace_space_runs_subset:
  "set (replace_space_runs s) \<subseteq> insert 0x5F (set s)"
proof (induction s rule: replace_space_runs.induct)
  case 1
  show ?case by simp
next
  case (2 c cs)
  have sub: "set (dropWhile is_space cs) \<subseteq> set cs"
    by (blast dest: set_dropWhileD)
  show ?case
  proof (cases "is_space c")
    case True
    with 2(1) sub show ?thesis by auto
  next
    case False
    with 2(2) show ?thesis by auto
  qed
qed

lemma trim_subset: "set (trim s) \<subseteq> set s"
proof -
  have drop_sub: "set (dropWhile is_space xs) \<subseteq> set xs" for xs
    by (blast dest: set_dropWhileD)
  have "set (trim s) = set (dropWhile is_space (rev (dropWhile is_space s)))"
    by (simp add: trim_def)
  also have "\<dots> \<subseteq> set (rev (dropWhile is_space s))"
    by (rule drop_sub)
  also have "\<dots> = set (dropWhile is_space s)"
    by simp
  also have "\<dots> \<subseteq> set s"
    by (rule drop_sub)
  finally show ?thesis .
qed

lemma underscore_legal: "\<not> is_illegal (0x5F :: jschar)"
  by (simp add: is_illegal_def illegal_chars_def)

lemma sanitizeFilename_chars:
  "set (sanitizeFilename t) \<subseteq> {c. \<not> is_illegal c \<and> \<not> is_space c}"
proof
  fix c
  assume "c \<in> set (sanitizeFilename t)"
  then have "c \<in> set (trim (replace_space_runs (remove_illegal t)))"
    by (auto simp: sanitizeFilename_def substring0_def dest: in_set_takeD)
  then have c: "c \<in> set (replace_space_runs (remove_illegal t))"
    using trim_subset by blast
  then have "\<not> is_space c"
    using replace_space_runs_no_space by blast
  moreover from c have "c = 0x5F \<or> c \<in> set (remove_illegal t)"
    using replace_space_runs_subset by blast
  then have "\<not> is_illegal c"
    using underscore_legal by (auto simp: remove_illegal_def)
  ultimately show "c \<in> {c. \<not> is_illegal c \<and> \<not> is_space c}"
    by simp
qed

lemma sanitizeFilename_web_eq: "sanitizeFilename_web t = sanitizeFilename t"
  by (simp add: sanitizeFilename_web_def sanitizeFilename_def)

text \<open>
  C4.  For every title \<open>t\<close>, \<open>sanitizeFilename t\<close> (scraper and browser version alike)
  contains none of the nine filename-illegal characters and no white-space code unit, and
  it is at most 200 code units long.
\<close>

theorem C4_sanitizeFilename_safe:
  "(\<forall>c \<in> set (sanitizeFilename t). c \<notin> set illegal_chars \<and> \<not> is_space c)
   \<and> length (sanitizeFilename t) \<le> 200
   \<and> sanitizeFilename_web t = sanitizeFilename t"
proof -
  have "\<forall>c \<in> set (sanitizeFilename t). c \<notin> set illegal_chars \<and> \<not> is_space c"
    using sanitizeFilename_chars [of t] by (auto simp: is_illegal_def)
  moreover have "length (sanitizeFilename t) \<le> 200"
    by (simp add: sanitizeFilename_def substring0_def)
  ultimately show ?thesis
    using sanitizeFilename_web_eq by blast
qed

lemma sanitizeFilename_example:
  "sanitizeFilename (js ''One  Piece: Red?'') = js ''One_Piece_Red''"
  by code_simp

theorem C4_sanitizeFilename_safe_witness:
  "sanitizeFilename (js ''One  Piece: Red?'') = js ''One_Piece_Red''
   \<and> 0x5F \<in> set (sanitizeFilename (js ''One  Piece: Red?''))
   \<and> 0x5F \<notin> set illegal_chars \<and> \<not> is_space 0x5F
   \<and> length (sanitizeFilename (js ''One  Piece: Red?'')) \<le> 200
   \<and> sanitizeFilename_web (js ''One  Piece: Red?'') = js ''One_Piece_Red''"
proof -
  have mem: "0x5F \<in> set (sanitizeFilename (js ''One  Piece: Red?''))"
    unfolding sanitizeFilename_example by (simp add: js_def)
  from C4_sanitizeFilename_safe [of "js ''One  Piece: Red?''"] mem
  show ?thesis
    unfolding sanitizeFilename_example by blast
qed

section \<open>The index projection\<close>

lemma foldl_available_episodes:
  "foldl (\<lambda>sum a. sum + or_number (Some (available_episodes a)) 0) n animeList
   = n + sum_list (map available_episodes animeList)"
  by (induction animeList arbitrary: n) (simp_all add: or_number_def)

text \<open>
  C9.  \<open>createIndex\<close> builds the index, writes it as the document at
  \<open>CONFIG.indexFile\<close> with one \<open>writeFileSync\<close> that touches no other file, and
  returns it.  The index has one entry per Artifact of the list, in order, carrying the
  Artifact's title and its two episode counts; \<open>total_anime\<close> is the number of
  Artifacts and \<open>total_episodes\<close> is the sum of their \<open>available_episodes\<close>.
\<close>

theorem C9_createIndex_summary:
  "fst (createIndex e animeList w) =
     (if writable e CONFIG_indexFile then Inr (build_index animeList (clock e)) else Inl FsError)
   \<and> files (snd (createIndex e animeList w)) =
     (if writable e CONFIG_indexFile
      then (files w)(CONFIG_indexFile \<mapsto> Index_doc (build_index animeList (clock e)))
      else files w)
   \<and> fs_ops (snd (createIndex e animeList w)) =
     fs_ops w @
     (if writable e CONFIG_indexFile
      then [WriteFileSync CONFIG_indexFile (Index_doc (build_index animeList (clock e)))]
      else [])
   \<and> log_lines (snd (createIndex e animeList w)) = log_lines w
   \<and> length (idx_anime_list (build_index animeList now)) = length animeList
   \<and> map ix_title (idx_anime_list (build_index animeList now)) = map title animeList
   \<and> map ix_total_episodes (idx_anime_list (build_index animeList now)) = map total_episodes animeList
   \<and> map ix_available_episodes (idx_anime_list (build_index animeList now))
       = map available_episodes animeList
   \<and> idx_total_anime (build_index animeList now) = length animeList
   \<and> idx_total_episodes (build_index animeList now) = sum_list (map available_episodes animeList)"
proof -
  have returned: "fst (createIndex e animeList w) =
     (if writable e CONFIG_indexFile then Inr (build_index animeList (clock e)) else Inl FsError)"
    by (simp add: createIndex_def Let_def)
  have written: "files (snd (createIndex e animeList w)) =
     (if writable e CONFIG_indexFile
      then (files w)(CONFIG_indexFile \<mapsto> Index_doc (build_index animeList (clock e)))
      else files w)"
    by (simp add: createIndex_def Let_def)
  have ops: "fs_ops (snd (createIndex e animeList w)) =
     fs_ops w @
     (if writable e CONFIG_indexFile
      then [WriteFileSync CONFIG_indexFile (Index_doc (build_index animeList (clock e)))]
      else [])"
    by (simp add: createIndex_def Let_def)
  have logged: "log_lines (snd (createIndex e animeList w)) = log_lines w"
    by (simp add: createIndex_def Let_def)
  have total: "idx_total_episodes (build_index animeList now)
      = sum_list (map available_episodes animeList)"
    by (simp add: build_index_def foldl_available_episodes)
  have entries: "length (idx_anime_list (build_index animeList now)) = length animeList
     \<and> map ix_title (idx_anime_list (build_index animeList now)) = map title animeList
     \<and> map ix_total_episodes (idx_anime_list (build_index animeList now))
         = map total_episodes animeList
     \<and> map ix_available_episodes (idx_anime_list (build_index animeList now))
         = map available_episodes animeList
     \<and> idx_total_anime (build_index animeList now) = length animeList"
    by (simp add: build_index_def comp_def)
  from returned written ops logged total entries show ?thesis
    by blast
qed

lemma sample_env_writable: "writable sample_env p"
  by (simp add: sample_env_def all_writable_def)

lemma sample_artifact_available: "available_episodes sample_artifact = 2"
  by (simp add: sample_artifact_def processAnimeData_def sample_detailed_def or_array_def
      Let_def)

theorem C9_createIndex_summary_witness:
  "fst (createIndex sample_env [sample_artifact] empty_world)
     = Inr (build_index [sample_artifact] sample_now)
   \<and> files (snd (createIndex sample_env [sample_artifact] empty_world)) CONFIG_indexFile
     = Some (Index_doc (build_index [sample_artifact] sample_now))
   \<and> fs_ops (snd (createIndex sample_env [sample_artifact] empty_world))
     = [WriteFileSync CONFIG_indexFile (Index_doc (build_index [sample_artifact] sample_now))]
   \<and> length (idx_anime_list (build_index [sample_artifact] sample_now)) = 1
   \<and> idx_total_anime (build_index [sample_artifact] sample_now) = 1
   \<and> idx_total_episodes (build_index [sample_artifact] sample_now) = 2"
proof -
  have clock: "clock sample_env = sample_now"
    by (simp add: sample_env_def)
  from C9_createIndex_summary [of sample_env "[sample_artifact]" empty_world sample_now]
  show ?thesis
    by (simp add: sample_env_writable clock sample_artifact_available empty_world_def)
qed

section \<open>Selecting the Targets\<close>

lemma map_set_keys:
  "map fst (map_set m k v) = (if k \<in> set (map fst m) then map fst m else map fst m @ [k])"
proof (induction m)
  case Nil
  show ?case by simp
next
  case (Cons p m)
  obtain k' v' where p: "p = (k', v')"
    by (cases p)
  show ?case
  proof (cases "k' = k")
    case True
    with p show ?thesis by simp
  next
    case False
    with p Cons.IH show ?thesis by simp
  qed
qed

lemma map_set_values:
  "set (map_set m k v) \<subseteq> insert (k, v) (set m)"
proof (induction m)
  case Nil
  show ?case by simp
next
  case (Cons p m)
  obtain k' v' where p: "p = (k', v')"
    by (cases p)
  show ?case
  proof (cases "k' = k")
    case True
    with p show ?thesis by auto
  next
    case False
    with p Cons.IH show ?thesis by auto
  qed
qed

definition keyed_by_id :: "basic_info js_map \<Rightarrow> bool" where
  "keyed_by_id m \<longleftrightarrow> distinct (map fst m) \<and> (\<forall>(k, v) \<in> set m. b_id v = k)"

lemma add_listing_keyed: "keyed_by_id m \<Longrightarrow> keyed_by_id (add_listing animeList m)"
proof (induction animeList arbitrary: m)
  case Nil
  then show ?case by (simp add: add_listing_def)
next
  case (Cons anime animeList)
  let ?m' = "if \<not> map_has m (b_id anime) then map_set m (b_id anime) anime else m"
  have "keyed_by_id ?m'"
  proof (cases "map_has m (b_id anime)")
    case True
    with Cons.prems show ?thesis by simp
  next
    case False
    then have new: "b_id anime \<notin> set (map fst m)"
      by (simp add: map_has_def)
    have "distinct (map fst (map_set m (b_id anime) anime))"
      using Cons.prems new by (simp add: map_set_keys keyed_by_id_def)
    moreover have "\<forall>(k, v) \<in> set (map_set m (b_id anime) anime). b_id v = k"
      using Cons.prems map_set_values [of m "b_id anime" anime]
      by (auto simp: keyed_by_id_def)
    ultimately show ?thesis
      using False by (simp add: keyed_by_id_def)
  qed
  then have "keyed_by_id (add_listing animeList ?m')"
    by (rule Cons.IH)
  then show ?case
    by (simp add: add_listing_def)
qed

lemma fold_add_listing_keyed:
  "keyed_by_id m \<Longrightarrow> keyed_by_id (fold add_listing listings m)"
  by (induction listings arbitrary: m) (simp_all add: add_listing_keyed)

lemma collect_all_keyed: "keyed_by_id (collect_all listings)"
  unfolding collect_all_def by (rule fold_add_listing_keyed) (simp add: keyed_by_id_def)

lemma keyed_values_ids: "keyed_by_id m \<Longrightarrow> map b_id (map_values m) = map fst m"
  by (induction m) (auto simp: keyed_by_id_def map_values_def)

lemma collect_all_distinct: "distinct (map b_id (map_values (collect_all listings)))"
  using collect_all_keyed [of listings] keyed_values_ids [of "collect_all listings"]
  by (simp add: keyed_by_id_def)

section \<open>Assembling and writing an Artifact\<close>

lemma processAnimeData_episodes:
  "episodes (processAnimeData basicInfo detailedInfo now)
   = map process_episode (or_array (Option.bind detailedInfo d_episodes))"
  by (simp add: processAnimeData_def Let_def)

lemma processAnimeData_id: "animekai_id (processAnimeData basicInfo detailedInfo now) = b_id basicInfo"
  by (simp add: processAnimeData_def Let_def)

lemma saveAnime_effect:
  "snd (saveAnime e a w)
   = (if saved e a
      then w\<lparr>files := store a (files w), fs_ops := fs_ops w @ [write_op a]\<rparr>
      else w)"
  by (auto simp: saveAnime_def saved_def save_error_def store_def filepath_of_def write_op_def
      Let_def split: sum.splits)

lemma sample_artifact_saved: "saved sample_env sample_artifact"
  by (simp add: saved_def save_error_def saveAnime_filename_def sample_artifact_def
      processAnimeData_def sample_basic_def sample_detailed_def or_string_def js_def
      sample_env_def all_writable_def Let_def)

text \<open>
  C5 (as amended).  \<open>available_episodes\<close> is the length of the Artifact's \<open>episodes\<close>
  array, which has one entry per episode the provider returned; \<open>has_videos\<close> is
  \<open>true\<close> on every one of them, whatever the episode carries.
\<close>

theorem C5_derived_fields:
  "available_episodes (processAnimeData basicInfo detailedInfo now)
     = length (episodes (processAnimeData basicInfo detailedInfo now))
   \<and> length (episodes (processAnimeData basicInfo detailedInfo now))
     = length (or_array (Option.bind detailedInfo d_episodes))
   \<and> map has_videos (episodes (processAnimeData basicInfo detailedInfo now))
     = replicate (length (or_array (Option.bind detailedInfo d_episodes))) True"
proof -
  have "map has_videos (map process_episode xs) = replicate (length xs) True" for xs
    by (induction xs) (simp_all add: process_episode_def)
  then show ?thesis
    by (simp add: processAnimeData_def Let_def)
qed

text \<open>
  C5 as stated fails: an episode whose id is empty gets \<open>has_videos = true\<close> although the
  consumer finds no video source for it.
\<close>

theorem C5_has_videos_counterexample:
  "has_videos (hd (episodes (processAnimeData sample_basic (Some sample_detailed_no_id) sample_now)))
   \<and> \<not> has_video_source
         (hd (episodes (processAnimeData sample_basic (Some sample_detailed_no_id) sample_now)))"
  by (simp add: processAnimeData_episodes sample_detailed_no_id_def sample_detailed_def
      or_array_def process_episode_def sample_episode_info_def has_video_source_def
      video_sources_def)

text \<open>
  C6 (as amended).  The one effect of \<open>saveAnime\<close> on the file system is a
  \<open>writeFileSync\<close> of the whole document at its final path: a successful call adds
  this one operation and stores the document there, and there is no temporary file and
  no rename.
\<close>

theorem C6_saveAnime_single_write:
  "fs_ops (snd (saveAnime e a w))
     = fs_ops w @ (if saved e a then [WriteFileSync (filepath_of a) (Anime_doc a)] else [])
   \<and> files (snd (saveAnime e a w))
     = (if saved e a then (files w)(filepath_of a \<mapsto> Anime_doc a) else files w)"
  by (simp add: saveAnime_effect write_op_def store_def)

text \<open>
  C6 as stated fails: the \<open>fs\<close> calls of a successful \<open>saveAnime\<close> are not a write to a
  temporary path followed by a rename.
\<close>

theorem C6_atomic_write_counterexample:
  "fs_ops (snd (saveAnime sample_env sample_artifact empty_world))
     = [WriteFileSync (filepath_of sample_artifact) (Anime_doc sample_artifact)]
   \<and> \<not> temp_then_rename (filepath_of sample_artifact) (Anime_doc sample_artifact)
         (fs_ops (snd (saveAnime sample_env sample_artifact empty_world)))"
  by (simp add: saveAnime_effect sample_artifact_saved write_op_def empty_world_def
      temp_then_rename_def)

section \<open>The order of the episodes\<close>

text \<open>
  C3 (as amended).  The episodes of the Artifact are the provider's episodes in the
  provider's order, and \<open>saveAnime\<close> stores the Artifact as it is; the order by rank is
  what the consumer's \<open>sortedEpisodes\<close> produces, a sorted rearrangement of the episodes
  it read.
\<close>

theorem C3_episode_order:
  "map episode_id (episodes (processAnimeData basicInfo detailedInfo now))
     = map ep_id (or_array (Option.bind detailedInfo d_episodes))
   \<and> files (snd (saveAnime e a w))
     = (if saved e a then (files w)(filepath_of a \<mapsto> Anime_doc a) else files w)
   \<and> sorted (map episode_rank (sortedEpisodes eps))
   \<and> mset (sortedEpisodes eps) = mset eps"
proof -
  have "map episode_id (map process_episode xs) = map ep_id xs" for xs
    by (induction xs) (simp_all add: process_episode_def)
  then have "map episode_id (episodes (processAnimeData basicInfo detailedInfo now))
     = map ep_id (or_array (Option.bind detailedInfo d_episodes))"
    by (simp add: processAnimeData_episodes)
  moreover have "files (snd (saveAnime e a w))
     = (if saved e a then (files w)(filepath_of a \<mapsto> Anime_doc a) else files w)"
    by (simp add: saveAnime_effect store_def)
  moreover have "sorted (map episode_rank (sortedEpisodes eps))"
    by (simp add: sortedEpisodes_def)
  moreover have "mset (sortedEpisodes eps) = mset eps"
    by (simp add: sortedEpisodes_def)
  ultimately show ?thesis
    by blast
qed

lemma nat_to_string_digit: "n < 10 \<Longrightarrow> nat_to_string n = [of_nat (48 + n)]"
  by (simp add: nat_to_string.simps)

lemma sample_artifact_ordinals:
  "map episode_number (episodes sample_artifact) = [js ''2'', js ''1'']"
  by (simp add: sample_artifact_def processAnimeData_episodes sample_detailed_def or_array_def
      process_episode_def sample_episode_info_def number_to_string_def nat_to_string_digit js_def)

lemma parseInt_2: "parseInt (js ''2'') = Some 2"
  by code_simp

lemma parseInt_1: "parseInt (js ''1'') = Some 1"
  by code_simp

text \<open>
  C3 as stated fails: when the provider lists episode 2 before episode 1, the Artifact
  that is written has them in that order.
\<close>

theorem C3_stored_order_counterexample:
  "map episode_number (episodes sample_artifact) = [js ''2'', js ''1'']
   \<and> \<not> sorted (map episode_rank (episodes sample_artifact))
   \<and> fs_ops (snd (saveAnime sample_env sample_artifact empty_world))
     = [WriteFileSync (filepath_of sample_artifact) (Anime_doc sample_artifact)]"
proof -
  have "map episode_rank (episodes sample_artifact)
      = map (\<lambda>n. case parseInt n of None \<Rightarrow> 0 | Some k \<Rightarrow> if k = 0 then 0 else k)
          (map episode_number (episodes sample_artifact))"
    by (simp add: episode_rank_def comp_def)
  then have "map episode_rank (episodes sample_artifact) = [2, 1]"
    by (simp add: sample_artifact_ordinals parseInt_2 parseInt_1)
  then have "\<not> sorted (map episode_rank (episodes sample_artifact))"
    by simp
  moreover have "fs_ops (snd (saveAnime sample_env sample_artifact empty_world))
     = [WriteFileSync (filepath_of sample_artifact) (Anime_doc sample_artifact)]"
    by (simp add: saveAnime_effect sample_artifact_saved write_op_def empty_world_def)
  ultimately show ?thesis
    using sample_artifact_ordinals by blast
qed

text \<open>
  C8 (as amended).  The consumer's sort puts the ordinals \<open>2, 1, 10, x\<close> in the order
  \<open>x, 1, 2, 10\<close>: \<open>x\<close> has rank 0 and comes first.
\<close>

theorem C8_sort_fixture:
  "map episode_number
     (sortedEpisodes (map ordinal_episode [js ''2'', js ''1'', js ''10'', js ''x'']))
   = [js ''x'', js ''1'', js ''2'', js ''10'']
   \<and> map episode_rank
     (sortedEpisodes (map ordinal_episode [js ''2'', js ''1'', js ''10'', js ''x'']))
   = [0, 1, 2, 10]"
  by code_simp

text \<open>C8 as stated fails: the order is not \<open>1, 2, 10, x\<close>.\<close>

theorem C8_sort_fixture_counterexample:
  "map episode_number
     (sortedEpisodes (map ordinal_episode [js ''2'', js ''1'', js ''10'', js ''x'']))
   \<noteq> [js ''1'', js ''2'', js ''10'', js ''x'']"
  by code_simp

section \<open>A batch with failures\<close>

lemma world_eqI:
  "files w1 = files w2 \<Longrightarrow> fs_ops w1 = fs_ops w2 \<Longrightarrow> log_lines w1 = log_lines w2
   \<Longrightarrow> (w1 :: world) = w2"
  by simp

lemma target_step:
  "(case fetchAnimeInfo e (b_id anime) (log (Fetching_info (b_title anime)) w) of
      (info, w1) \<Rightarrow>
        (case saveAnime e (processAnimeData anime info (clock e)) w1 of
           (Inr filename, w2) \<Rightarrow> (True, processAnimeData anime info (clock e), w2)
         | (Inl error, w2) \<Rightarrow>
             (False, processAnimeData anime info (clock e),
              log (Error_processing (b_title anime) error) w2)))
   = (saved e (processed_of e anime), processed_of e anime, target_effect e anime w)"
  by (auto simp: fetchAnimeInfo_def saveAnime_def processed_of_def fetched_info_def
      target_effect_def saved_def save_error_def target_log_def log_def Let_def
      store_def filepath_of_def write_op_def
      split: sum.splits intro!: world_eqI)

lemma processBatch_loop_step:
  "processBatch_loop e (anime # rest) results w =
     processBatch_loop e rest
       (results @ (if saved e (processed_of e anime) then [processed_of e anime] else []))
       (target_effect e anime w)"
  using target_step [where e = e and anime = anime and w = w]
  by (auto simp: Let_def split: prod.splits sum.splits)

lemma processBatch_loop_fold:
  "processBatch_loop e batch results w =
     (results @ filter (saved e) (map (processed_of e) batch), fold (target_effect e) batch w)"
proof (induction batch arbitrary: results w)
  case Nil
  show ?case by simp
next
  case (Cons anime rest)
  show ?case
    unfolding processBatch_loop_step Cons.IH by simp
qed



lemma fold_target_effect_ops:
  "fs_ops (fold (target_effect e) batch w)
   = fs_ops w @ map write_op (filter (saved e) (map (processed_of e) batch))"
  by (induction batch arbitrary: w) (simp_all add: target_effect_def Let_def)





section \<open>The whole run\<close>

lemma processBatch_append:
  "processBatch e (xs @ ys) w =
     (fst (processBatch e xs w) @ fst (processBatch e ys (snd (processBatch e xs w))),
      snd (processBatch e ys (snd (processBatch e xs w))))"
  by (simp add: processBatch_def processBatch_loop_fold)

text \<open>Cutting the Targets into batches changes nothing: the run is one long batch.\<close>

lemma main_loop_processBatch:
  "main_loop e targets i processedAnime w =
     (processedAnime @ fst (processBatch e (drop i targets) w),
      snd (processBatch e (drop i targets) w))"
proof (induction e targets i processedAnime w rule: main_loop.induct)
  case (1 e targets i processedAnime w)
  show ?case
  proof (cases "i < length targets")
    case False
    then show ?thesis
      by (simp add: main_loop.simps processBatch_def)
  next
    case True
    let ?batch = "take CONFIG_concurrency (drop i targets)"
    obtain results w' where pb: "processBatch e ?batch w = (results, w')"
      by (cases "processBatch e ?batch w")
    have split: "drop i targets = ?batch @ drop (i + CONFIG_concurrency) targets"
      by (simp add: add.commute [of i] drop_drop [symmetric] del: drop_drop)
    have "main_loop e targets i processedAnime w
        = main_loop e targets (i + CONFIG_concurrency) (processedAnime @ results) w'"
      using True pb by (subst main_loop.simps) simp
    also have "\<dots> = ((processedAnime @ results)
          @ fst (processBatch e (drop (i + CONFIG_concurrency) targets) w'),
        snd (processBatch e (drop (i + CONFIG_concurrency) targets) w'))"
      using "1.IH" [OF True pb [symmetric]] .
    also have "\<dots> = (processedAnime @ fst (processBatch e (drop i targets) w),
        snd (processBatch e (drop i targets) w))"
    proof -
      have "processBatch e (drop i targets) w
          = processBatch e (?batch @ drop (i + CONFIG_concurrency) targets) w"
        using split by (rule arg_cong [where f = "\<lambda>xs. processBatch e xs w"])
      then show ?thesis
        by (simp add: processBatch_append pb)
    qed
    finally show ?thesis .
  qed
qed

lemma processed_ids:
  "map animekai_id (filter (saved e) (map (processed_of e) targets))
   = map b_id (filter (\<lambda>anime. saved e (processed_of e anime)) targets)"
  by (induction targets) (simp_all add: processed_of_def processAnimeData_id)

text \<open>
  C10.  The Targets that \<open>main\<close> selects for processing carry pairwise different provider
  ids, whatever the category listings contain and whatever the limit is.  So the
  Artifacts that the run produces carry pairwise different ids, and the run writes one
  file per Artifact it produces.
\<close>

theorem C10_targets_distinct_ids:
  "distinct (map b_id (animeToProcess listings limit))
   \<and> distinct (map animekai_id (fst (main_loop e (animeToProcess listings limit) 0 [] w)))
   \<and> fs_ops (snd (main_loop e (animeToProcess listings limit) 0 [] w))
     = fs_ops w @ map write_op (fst (main_loop e (animeToProcess listings limit) 0 [] w))"
proof -
  let ?all = "map_values (collect_all listings)"
  let ?targets = "animeToProcess listings limit"
  have all: "distinct (map b_id ?all)"
    by (rule collect_all_distinct)
  have "distinct (map b_id (slice0 l ?all))" for l
    using all by (simp add: slice0_def take_map [symmetric] del: take_map)
  with all have targets: "distinct (map b_id ?targets)"
    by (simp add: animeToProcess_def Let_def split: option.split)
  have run: "main_loop e ?targets 0 [] w = processBatch e ?targets w"
    by (simp add: main_loop_processBatch)
  have results: "fst (processBatch e ?targets w) = filter (saved e) (map (processed_of e) ?targets)"
    by (simp add: processBatch_def processBatch_loop_fold)
  have "distinct (map animekai_id (fst (processBatch e ?targets w)))"
    unfolding results processed_ids using targets by (rule distinct_map_filter)
  moreover have "fs_ops (snd (processBatch e ?targets w))
      = fs_ops w @ map write_op (fst (processBatch e ?targets w))"
    unfolding results by (simp add: processBatch_def processBatch_loop_fold fold_target_effect_ops)
  ultimately show ?thesis
    using targets unfolding run by blast
qed

section \<open>The two hashes on concrete strings\<close>

text \<open>
  The digests below are computed step by step: the padded words, the rounds on the one
  block, and the hexadecimal digits.
\<close>

lemmas md5_defs = FF_def GG_def HH_def II_def F_def G_def H_def I_def addUnsigned_def rotateLeft_def
  S11_def S12_def S13_def S14_def S21_def S22_def S23_def S24_def S31_def S32_def S33_def S34_def
  S41_def S42_def S43_def S44_def

lemma utf8_e_acute: "utf8_encode [0xE9] = [0xC3, 0xA9]"
  by (simp add: js_def utf8_codepoint_def is_high_surrogate_def is_low_surrogate_def)

lemma rfc_words_e_acute:
  "rfc_words (rfc_pad [0xC3, 0xA9])
   = [0x80A9C3, 0x0, 0x0, 0x0, 0x0, 0x0, 0x0, 0x0, 0x0, 0x0, 0x0, 0x0, 0x0, 0x0, 0x10, 0x0]"
  by code_simp

lemma rfc_blocks_e_acute:
  "rfc_blocks (0x67452301, 0xefcdab89, 0x98badcfe, 0x10325476)
     [0x80A9C3, 0x0, 0x0, 0x0, 0x0, 0x0, 0x0, 0x0, 0x0, 0x0, 0x0, 0x0, 0x0, 0x0, 0x10, 0x0]
   = (0x97CDDD66, 0xB2ABDECF, 0x998AFBF6, 0x6FC74B9B)"
  by (simp add: rfc_blocks.simps rfc_rounds.simps rfc_T_def rfc_shift_def)

lemma rfc_hex_e_acute:
  "substring0 8 (concat (map hex_byte
     (word_bytes 0x97CDDD66 @ word_bytes 0xB2ABDECF @ word_bytes 0x998AFBF6 @ word_bytes 0x6FC74B9B)))
   = js ''66ddcd97''"
  by (simp add: substring0_def hex_byte_def word_bytes_def hex_digit_def js_def)

lemma getHash_e_acute: "getHash [0xE9] = js ''66ddcd97''"
  unfolding getHash_def md5_hex_def utf8_e_acute rfc_words_e_acute rfc_blocks_e_acute prod.case
  by (rule rfc_hex_e_acute)

lemma convertToWordArray_e_acute:
  "convertToWordArray [0xE9]
   = [0x80E9, 0x0, 0x0, 0x0, 0x0, 0x0, 0x0, 0x0, 0x0, 0x0, 0x0, 0x0, 0x0, 0x0, 0x8, 0x0]"
  by code_simp

lemma md5_loop_e_acute:
  "md5_loop [0x80E9, 0x0, 0x0, 0x0, 0x0, 0x0, 0x0, 0x0, 0x0, 0x0, 0x0, 0x0, 0x0, 0x0, 0x8, 0x0] 0
     (0x67452301, 0xEFCDAB89, 0x98BADCFE, 0x10325476)
   = (0x76870634, 0xDD1D6994, 0xCA0AFB1D, 0x7146854)"
  by (simp add: md5_loop.simps md5_body_def md5_steps_def md5_defs)

lemma wordToHex_e_acute:
  "substring0 8 (toLowerCase
     (wordToHex 0x76870634 @ wordToHex 0xDD1D6994 @ wordToHex 0xCA0AFB1D @ wordToHex 0x7146854))
   = js ''34068776''"
  by (simp add: substring0_def toLowerCase_def wordToHex_def toString16_def hex_digit_def js_def)

lemma hashString_e_acute: "hashString [0xE9] = js ''34068776''"
  unfolding hashString_def md5_def convertToWordArray_e_acute Let_def md5_loop_e_acute prod.case
  by (rule wordToHex_e_acute)

lemma utf8_id:
  "utf8_encode (js ''one-piece-dk6r'')
   = [0x6F, 0x6E, 0x65, 0x2D, 0x70, 0x69, 0x65, 0x63, 0x65, 0x2D, 0x64, 0x6B, 0x36, 0x72]"
  by (simp add: js_def utf8_codepoint_def is_high_surrogate_def is_low_surrogate_def)

lemma rfc_words_id:
  "rfc_words (rfc_pad [0x6F, 0x6E, 0x65, 0x2D, 0x70, 0x69, 0x65, 0x63, 0x65, 0x2D, 0x64, 0x6B, 0x36, 0x72])
   = [0x2D656E6F, 0x63656970, 0x6B642D65, 0x807236, 0x0, 0x0, 0x0, 0x0, 0x0, 0x0, 0x0, 0x0, 0x0, 0x0, 0x70, 0x0]"
  by code_simp

lemma rfc_blocks_id:
  "rfc_blocks (0x67452301, 0xefcdab89, 0x98badcfe, 0x10325476)
     [0x2D656E6F, 0x63656970, 0x6B642D65, 0x807236, 0x0, 0x0, 0x0, 0x0, 0x0, 0x0, 0x0, 0x0, 0x0, 0x0, 0x70, 0x0]
   = (0xDFE98AA6, 0xF20FADCD, 0xC100B8DA, 0x90DE6798)"
  by (simp add: rfc_blocks.simps rfc_rounds.simps rfc_T_def rfc_shift_def)

lemma rfc_hex_id:
  "substring0 8 (concat (map hex_byte
     (word_bytes 0xDFE98AA6 @ word_bytes 0xF20FADCD @ word_bytes 0xC100B8DA @ word_bytes 0x90DE6798)))
   = js ''a68ae9df''"
  by (simp add: substring0_def hex_byte_def word_bytes_def hex_digit_def js_def)

lemma getHash_id: "getHash (js ''one-piece-dk6r'') = js ''a68ae9df''"
  unfolding getHash_def md5_hex_def utf8_id rfc_words_id rfc_blocks_id prod.case
  by (rule rfc_hex_id)

lemma convertToWordArray_url:
  "convertToWordArray (js ''https://animekai.to/watch/one-piece-dk6r'')
   = [0x70747468, 0x2F2F3A73, 0x6D696E61, 0x69616B65, 0x2F6F742E, 0x63746177, 0x6E6F2F68, 0x69702D65, 0x2D656365, 0x72366B64, 0x80, 0x0, 0x0, 0x0, 0x140, 0x0]"
  by code_simp

lemma md5_loop_url:
  "md5_loop [0x70747468, 0x2F2F3A73, 0x6D696E61, 0x69616B65, 0x2F6F742E, 0x63746177, 0x6E6F2F68, 0x69702D65, 0x2D656365, 0x72366B64, 0x80, 0x0, 0x0, 0x0, 0x140, 0x0] 0
     (0x67452301, 0xEFCDAB89, 0x98BADCFE, 0x10325476)
   = (0x66D26D1B, 0xB90ADF8A, 0xAC2E3877, 0x4A94E935)"
  by (simp add: md5_loop.simps md5_body_def md5_steps_def md5_defs)

lemma wordToHex_url:
  "substring0 8 (toLowerCase
     (wordToHex 0x66D26D1B @ wordToHex 0xB90ADF8A @ wordToHex 0xAC2E3877 @ wordToHex 0x4A94E935))
   = js ''1b6dd266''"
  by (simp add: substring0_def toLowerCase_def wordToHex_def toString16_def hex_digit_def js_def)

lemma hashString_url: "hashString (js ''https://animekai.to/watch/one-piece-dk6r'') = js ''1b6dd266''"
  unfolding hashString_def md5_def convertToWordArray_url Let_def md5_loop_url prod.case
  by (rule wordToHex_url)

text \<open>
  C2 fails on the browser side.  For the one-character string U+00E9 the UTF-8 bytes are
  C3 A9 and \<open>getHash\<close> returns the first eight digits of their MD5, \<open>66ddcd97\<close>;
  \<open>hashString\<close> feeds the code unit E9 to its MD5 as if it were one byte and returns
  \<open>34068776\<close>.
\<close>

theorem C2_hashString_non_ascii:
  "utf8_encode [0xE9] = [0xC3, 0xA9]
   \<and> getHash [0xE9] = substring0 8 (md5_hex [0xC3, 0xA9])
   \<and> getHash [0xE9] = js ''66ddcd97''
   \<and> hashString [0xE9] = js ''34068776''
   \<and> hashString [0xE9] \<noteq> substring0 8 (md5_hex (utf8_encode [0xE9]))"
proof -
  have ref: "substring0 8 (md5_hex (utf8_encode [0xE9])) = js ''66ddcd97''"
    using getHash_e_acute unfolding getHash_def .
  have "js ''34068776'' \<noteq> js ''66ddcd97''"
    by (simp add: js_def)
  then have "hashString [0xE9] \<noteq> substring0 8 (md5_hex (utf8_encode [0xE9]))"
    unfolding ref hashString_e_acute .
  moreover have "getHash [0xE9] = substring0 8 (md5_hex [0xC3, 0xA9])"
    unfolding getHash_def utf8_e_acute ..
  ultimately show ?thesis
    using utf8_e_acute getHash_e_acute hashString_e_acute by blast
qed

section \<open>The file name on both sides\<close>

lemma sample_artifact_title: "title sample_artifact = Some (js ''One Piece'')"
  by (simp add: sample_artifact_def processAnimeData_def sample_basic_def sample_detailed_def
      or_string_def js_def Let_def)

lemma sample_artifact_id: "animekai_id sample_artifact = js ''one-piece-dk6r''"
  by (simp add: sample_artifact_def processAnimeData_id sample_basic_def)

lemma sample_artifact_url:
  "url sample_artifact = Some (js ''https://animekai.to/watch/one-piece-dk6r'')"
  by (simp add: sample_artifact_def processAnimeData_def sample_basic_def sample_detailed_def
      or_string_def js_def Let_def)

lemma sanitizeFilename_One_Piece: "sanitizeFilename (js ''One Piece'') = js ''One_Piece''"
  by code_simp

text \<open>
  C1 fails.  \<open>saveAnime\<close> names the Artifact of the sample Target after the hash of its
  provider id, \<open>One_Piece_a68ae9df.json\<close>.  The consumer hashes \<open>animeInfo.url\<close>: the
  entry that \<open>createIndex\<close> wrote has no \<open>url\<close>, so \<open>loadAnimeData\<close> throws, and given
  the Target's url it asks for \<open>One_Piece_1b6dd266.json\<close>.
\<close>

theorem C1_filename_mismatch:
  "saveAnime_filename sample_artifact = Inr (js ''One_Piece_a68ae9df.json'')
   \<and> loadAnimeData_filename
         (read_index_entry (hd (idx_anime_list (build_index [sample_artifact] sample_now))))
       = Inl TypeError
   \<and> loadAnimeData_filename \<lparr> info_title = title sample_artifact, info_url = url sample_artifact \<rparr>
       = Inr (js ''One_Piece_1b6dd266.json'')"
proof -
  have "saveAnime_filename sample_artifact
      = Inr (js ''One_Piece'' @ js ''_'' @ js ''a68ae9df'' @ js ''.json'')"
    by (simp add: saveAnime_filename_def sample_artifact_title sample_artifact_id
        sanitizeFilename_One_Piece getHash_id)
  then have save: "saveAnime_filename sample_artifact = Inr (js ''One_Piece_a68ae9df.json'')"
    by (simp add: js_def)
  have index: "loadAnimeData_filename
         (read_index_entry (hd (idx_anime_list (build_index [sample_artifact] sample_now))))
       = Inl TypeError"
    by (simp add: loadAnimeData_filename_def read_index_entry_def)
  have "loadAnimeData_filename \<lparr> info_title = title sample_artifact, info_url = url sample_artifact \<rparr>
      = Inr (js ''One_Piece'' @ js ''_'' @ js ''1b6dd266'' @ js ''.json'')"
    by (simp add: loadAnimeData_filename_def sample_artifact_title sample_artifact_url
        sanitizeFilename_web_eq sanitizeFilename_One_Piece hashString_url Let_def)
  then have "loadAnimeData_filename \<lparr> info_title = title sample_artifact, info_url = url sample_artifact \<rparr>
      = Inr (js ''One_Piece_1b6dd266.json'')"
    by (simp add: js_def)
  with save index show ?thesis
    by blast
qed

end
